theory Spec2Isabelle
  imports Complex_Main "HOL-Library.AList"
begin

section \<open>Python values and exceptions\<close>

text \<open>
  The exception classes that the modelled code can raise or receive from its libraries.
  All of them are subclasses of Python's \<open>Exception\<close>; task cancellation is outside
  the model.
\<close>

datatype exn =
    KeyError | IndexError | TypeError | AttributeError | ValueError
  | SyntaxError | BinasciiError | ZlibError | UnicodeDecodeError
  | TimeoutError | IOError

section \<open>Order book messages and the order book\<close>

datatype OrderBookMessageType = SNAPSHOT | DIFF | TRADE

text \<open>A row is a price level with its size, both counted in exact units (ticks and lots).\<close>

type_synonym row = "nat \<times> nat"

text \<open>
  \<open>timestamp\<close> carries the sequence token: \<open>listen_for_order_book_stream\<close> builds every
  message with the frame's nonce as its timestamp, and \<open>_track_single_book\<close> hands
  \<open>message.timestamp\<close> to the order book as the update id.
\<close>

record OrderBookMessage =
  msg_type :: OrderBookMessageType
  timestamp :: int
  bids :: "row list"
  asks :: "row list"

record OrderBook =
  bid_book :: "nat \<rightharpoonup> nat"
  ask_book :: "nat \<rightharpoonup> nat"
  last_applied_token :: int

text \<open>
  Modelled from the spec: the class \<open>FtxOrderBook\<close> (\<open>ftx_order_book.py\<close>, over the core
  \<open>OrderBook\<close>) is not among the sources. The spec's data model gives one mapping
  price \<open>\<rightarrow>\<close> size per side and the last-applied token; a row of size 0 removes its price
  level, a row of size \<open>> 0\<close> upserts it.
\<close>

definition apply_row :: "row \<Rightarrow> (nat \<rightharpoonup> nat) \<Rightarrow> (nat \<rightharpoonup> nat)" where
  "apply_row r m = (case r of (price, sz) \<Rightarrow> if sz = 0 then m(price := None) else m(price \<mapsto> sz))"

text \<open>
  Modelled from the spec: \<open>OrderBook.apply_diffs\<close> is missing from the sources. The spec
  says of a diff: "if token \<open>\<le>\<close> last-applied token, discard (duplicate/stale); otherwise
  apply each row -- size 0 deletes the price level, size \<open>> 0\<close> upserts it -- and update
  last-applied token", and "applying a diff with a token \<open>\<le>\<close> the book's last-applied
  token is a no-op".
\<close>

definition apply_diffs :: "OrderBook \<Rightarrow> row list \<Rightarrow> row list \<Rightarrow> int \<Rightarrow> OrderBook" where
  "apply_diffs ob bs as update_id =
     (if update_id \<le> last_applied_token ob then ob
      else ob\<lparr>bid_book := fold apply_row bs (bid_book ob),
              ask_book := fold apply_row as (ask_book ob),
              last_applied_token := update_id\<rparr>)"

text \<open>
  Modelled from the spec: \<open>OrderBook.apply_snapshot\<close> is missing from the sources. A
  snapshot is "a full replacement of one instrument's order book rows as of a given
  sequence token".
\<close>

definition apply_snapshot :: "OrderBook \<Rightarrow> row list \<Rightarrow> row list \<Rightarrow> int \<Rightarrow> OrderBook" where
  "apply_snapshot ob bs as update_id =
     ob\<lparr>bid_book := fold apply_row bs Map.empty,
        ask_book := fold apply_row as Map.empty,
        last_applied_token := update_id\<rparr>"

text \<open>
  Modelled from the spec: \<open>FtxActiveOrderTracker\<close> is missing from the sources; its two
  converters turn a message into the bid rows and the ask rows it carries.
\<close>

definition convert_diff_message_to_order_book_row :: "OrderBookMessage \<Rightarrow> row list \<times> row list" where
  "convert_diff_message_to_order_book_row message = (bids message, asks message)"

definition convert_snapshot_message_to_order_book_row :: "OrderBookMessage \<Rightarrow> row list \<times> row list" where
  "convert_snapshot_message_to_order_book_row message = (bids message, asks message)"

section \<open>Bounded deques\<close>

text \<open>
  \<open>collections.deque(maxlen=n)\<close>: \<open>append\<close> adds on the right and, when the deque is full,
  drops from the left, so that the deque holds the last \<open>n\<close> items appended.
\<close>

definition deque_append :: "nat \<Rightarrow> 'a list \<Rightarrow> 'a \<Rightarrow> 'a list" where
  "deque_append maxlen d x = (let d' = d @ [x] in drop (length d' - maxlen) d')"

text \<open>\<open>deque(maxlen=1000)\<close>, the default of \<open>_saved_message_queues\<close>.\<close>

definition saved_maxlen :: nat where
  "saved_maxlen = 1000"

section \<open>The per-instrument loop \<open>_track_single_book\<close>\<close>

datatype log_entry =
    ProcessedDiffs nat string
  | ProcessedSnapshot string
  | StartedTracking string
  | StoppedTracking string
  | NetworkWarning string
  | InfoSubscribed string
  | InfoQuery string

text \<open>
  What one running \<open>_track_single_book(trading_pair)\<close> task reads and writes:
  the pair's order book, its deque in \<open>_saved_message_queues\<close>, its queue in
  \<open>_tracking_message_queues\<close>, its deque in \<open>_past_diffs_windows\<close>, and the two locals
  of the statistics. Clock readings are exact rationals.
\<close>

record tracking =
  order_book :: OrderBook
  saved_messages :: "OrderBookMessage list"
  message_queue :: "OrderBookMessage list"
  past_diffs_window :: "OrderBookMessage list"
  last_message_timestamp :: rat
  diff_messages_accepted :: nat
  debug_log :: "log_entry list"

text \<open>
  Lines 118-121: a saved message is taken first (\<open>popleft\<close>); otherwise the task awaits
  \<open>message_queue.get()\<close>, which does not return while the queue is empty (\<open>None\<close>).
\<close>

definition next_message :: "tracking \<Rightarrow> (OrderBookMessage \<times> tracking) option" where
  "next_message s =
     (if length (saved_messages s) > 0
      then Some (hd (saved_messages s), s\<lparr>saved_messages := tl (saved_messages s)\<rparr>)
      else (case message_queue s of
              [] \<Rightarrow> None
            | message # rest \<Rightarrow> Some (message, s\<lparr>message_queue := rest\<rparr>)))"

text \<open>Lines 126-127: \<open>while len(past_diffs_window) > PAST_DIFF_WINDOW_SIZE: popleft()\<close>.\<close>

function trim_window :: "nat \<Rightarrow> 'a list \<Rightarrow> 'a list" where
  "trim_window w d = (if length d > w then trim_window w (tl d) else d)"
  by pat_completeness auto
termination
  by (relation "measure (\<lambda>(w, d). length d)") auto

declare trim_window.simps [simp del]

text \<open>\<open>int(x)\<close> on a clock reading truncates towards zero.\<close>

definition py_int :: "rat \<Rightarrow> int" where
  "py_int x = (if x \<ge> 0 then \<lfloor>x\<rfloor> else \<lceil>x\<rceil>)"

text \<open>
  One iteration of the \<open>while True\<close> loop (lines 112-140). \<open>PAST_DIFF_WINDOW_SIZE\<close> is a
  constant of the base class, which is not among the sources, and is a parameter here;
  \<open>now\<close> is what \<open>time.time()\<close> returns in this iteration. The order book and the
  converters as modelled raise nothing, so the handler of lines 143-149 (log, sleep five
  seconds, go on with the loop) has no branch here.
\<close>

definition track_single_book_step :: "nat \<Rightarrow> string \<Rightarrow> rat \<Rightarrow> tracking \<Rightarrow> tracking option" where
  "track_single_book_step PAST_DIFF_WINDOW_SIZE trading_pair now s =
     (case next_message s of
        None \<Rightarrow> None
      | Some (message, s1) \<Rightarrow>
          Some
           (if msg_type message = DIFF then
              (case convert_diff_message_to_order_book_row message of (bs, as) \<Rightarrow>
                 let s2 = s1\<lparr>order_book := apply_diffs (order_book s1) bs as (timestamp message),
                             past_diffs_window :=
                               trim_window PAST_DIFF_WINDOW_SIZE (past_diffs_window s1 @ [message]),
                             diff_messages_accepted := diff_messages_accepted s1 + 1\<rparr>;
                     s3 = (if py_int (now / 60) > py_int (last_message_timestamp s2 / 60)
                           then s2\<lparr>debug_log := debug_log s2 @
                                       [ProcessedDiffs (diff_messages_accepted s2) trading_pair],
                                   diff_messages_accepted := 0\<rparr>
                           else s2)
                 in s3\<lparr>last_message_timestamp := now\<rparr>)
            else if msg_type message = SNAPSHOT then
              (case convert_snapshot_message_to_order_book_row message of (bs, as) \<Rightarrow>
                 s1\<lparr>order_book := apply_snapshot (order_book s1) bs as (timestamp message),
                    debug_log := debug_log s1 @ [ProcessedSnapshot trading_pair]\<rparr>)
            else s1))"

text \<open>
  Modelled from the spec: the router of the base class, which feeds the two queues of a
  pair, is not among the sources. A diff that arrives before the pair is tracked is
  appended to the replay buffer, here the pair's \<open>deque(maxlen=1000)\<close> of line 57;
  a message for a tracked pair is put on the pair's inbound queue. Between two
  observations of one instrument either of these happens, or the task runs one
  iteration; a blocked iteration leaves the state as it is.
\<close>

datatype event = Iteration rat | Saved OrderBookMessage | Routed OrderBookMessage

fun exec :: "nat \<Rightarrow> string \<Rightarrow> tracking \<Rightarrow> event \<Rightarrow> tracking" where
  "exec w tp s (Iteration now) =
     (case track_single_book_step w tp now s of None \<Rightarrow> s | Some s' \<Rightarrow> s')"
| "exec w tp s (Saved m) = s\<lparr>saved_messages := deque_append saved_maxlen (saved_messages s) m\<rparr>"
| "exec w tp s (Routed m) = s\<lparr>message_queue := message_queue s @ [m]\<rparr>"

text \<open>The effect of one message on the book, whichever queue it came from.\<close>

definition apply_message :: "OrderBook \<Rightarrow> OrderBookMessage \<Rightarrow> OrderBook" where
  "apply_message ob m =
     (if msg_type m = DIFF then apply_diffs ob (bids m) (asks m) (timestamp m)
      else if msg_type m = SNAPSHOT then apply_snapshot ob (bids m) (asks m) (timestamp m)
      else ob)"

section \<open>JSON values as Python sees them\<close>

text \<open>
  What \<open>ujson.loads\<close> returns: \<open>None\<close>, a bool, a number, a str, a list or a dict with
  str keys. A dict is an association list whose first binding of a key is the dict's.
  Strings are UTF-8 byte sequences.
\<close>

datatype json =
    JNull | JBool bool | JNum rat | JStr string
  | JArr "json list" | JObj "(string \<times> json) list"

definition is_continuation :: "char \<Rightarrow> bool" where
  "is_continuation c = (128 \<le> (of_char c :: nat) \<and> (of_char c :: nat) < 192)"

text \<open>\<open>s[0]\<close> of a non-empty str: its first code point.\<close>

definition first_char :: "string \<Rightarrow> string" where
  "first_char s = (case s of [] \<Rightarrow> [] | c # cs \<Rightarrow> c # takeWhile is_continuation cs)"

text \<open>\<open>x.get(key, default)\<close>: only a dict has the method.\<close>

definition py_get :: "json \<Rightarrow> string \<Rightarrow> json \<Rightarrow> exn + json" where
  "py_get x key dflt =
     (case x of
        JObj kvs \<Rightarrow> Inr (case map_of kvs key of None \<Rightarrow> dflt | Some v \<Rightarrow> v)
      | _ \<Rightarrow> Inl AttributeError)"

text \<open>\<open>x[key]\<close> with a str key.\<close>

definition py_getitem :: "json \<Rightarrow> string \<Rightarrow> exn + json" where
  "py_getitem x key =
     (case x of
        JObj kvs \<Rightarrow> (case map_of kvs key of None \<Rightarrow> Inl KeyError | Some v \<Rightarrow> Inr v)
      | _ \<Rightarrow> Inl TypeError)"

text \<open>\<open>x[0]\<close>. A dict decoded from JSON has str keys only, so the key 0 is missing.\<close>

definition py_index0 :: "json \<Rightarrow> exn + json" where
  "py_index0 x =
     (case x of
        JArr vs \<Rightarrow> (case vs of [] \<Rightarrow> Inl IndexError | v # _ \<Rightarrow> Inr v)
      | JStr s \<Rightarrow> (case s of [] \<Rightarrow> Inl IndexError | _ # _ \<Rightarrow> Inr (JStr (first_char s)))
      | JObj kvs \<Rightarrow> Inl KeyError
      | _ \<Rightarrow> Inl TypeError)"

text \<open>\<open>len(x)\<close>; a str counts its code points.\<close>

definition py_len :: "json \<Rightarrow> exn + nat" where
  "py_len x =
     (case x of
        JArr vs \<Rightarrow> Inr (length vs)
      | JStr s \<Rightarrow> Inr (length (filter (\<lambda>c. \<not> is_continuation c) s))
      | JObj kvs \<Rightarrow> Inr (length kvs)
      | _ \<Rightarrow> Inl TypeError)"

text \<open>\<open>s.split(sep)\<close> with a one-character separator: never empty, one more part than separators.\<close>

fun split_on :: "char \<Rightarrow> string \<Rightarrow> string list" where
  "split_on sep [] = [[]]"
| "split_on sep (c # cs) =
     (if c = sep then [] # split_on sep cs
      else (case split_on sep cs of [] \<Rightarrow> [[c]] | p # ps \<Rightarrow> (c # p) # ps))"

definition py_nth :: "'a list \<Rightarrow> nat \<Rightarrow> exn + 'a" where
  "py_nth xs i = (if i < length xs then Inr (xs ! i) else Inl IndexError)"

text \<open>
  The f-string \<open>f"{tp.split(sep)[1]}-{tp.split(sep)[0]}"\<close> of lines 116, 226, 239 and 256:
  the second part, a hyphen, the first part.
\<close>

definition swap_pair :: "char \<Rightarrow> string \<Rightarrow> exn + string" where
  "swap_pair sep tp =
     (case py_nth (split_on sep tp) 1 of
        Inl e \<Rightarrow> Inl e
      | Inr second \<Rightarrow>
          (case py_nth (split_on sep tp) 0 of
             Inl e \<Rightarrow> Inl e
           | Inr first \<Rightarrow> Inr (second @ ''-'' @ first)))"

section \<open>The decoder \<open>_transform_raw_message\<close>\<close>

text \<open>
  The library calls of the decoder, as parameters: \<open>ujson.loads\<close> on a text,
  \<open>decompress(b64decode(raw, validate=True), -MAX_WBITS)\<close> (raw DEFLATE, the primary
  scheme), \<open>decompress(b64decode(raw, validate=True))\<close> (zlib framing, the alternate one)
  and \<open>bytes.decode()\<close>. Each returns a value or raises.
\<close>

record codec =
  loads :: "string \<Rightarrow> exn + json"
  b64_inflate_raw :: "json \<Rightarrow> exn + string"
  b64_inflate_zlib :: "json \<Rightarrow> exn + string"
  decode_text :: "string \<Rightarrow> exn + string"

text \<open>Line 208: \<open>ujson.loads(decoded_msg.decode())\<close>, outside the \<open>try\<close>.\<close>

definition loads_decoded :: "codec \<Rightarrow> string \<Rightarrow> exn + json" where
  "loads_decoded lib decoded_msg =
     (case decode_text lib decoded_msg of
        Inl e \<Rightarrow> Inl e
      | Inr text \<Rightarrow> loads lib text)"

text \<open>
  Lines 200-208. The alternate scheme runs in the handler of \<open>SyntaxError\<close> only, and what
  it raises is not caught by the handler beside it; every other exception of the first
  attempt gives \<open>{}\<close>.
\<close>

definition decode_message :: "codec \<Rightarrow> json \<Rightarrow> exn + json" where
  "decode_message lib raw_message =
     (case b64_inflate_raw lib raw_message of
        Inr decoded_msg \<Rightarrow> loads_decoded lib decoded_msg
      | Inl e \<Rightarrow>
          if e = SyntaxError then
            (case b64_inflate_zlib lib raw_message of
               Inl e' \<Rightarrow> Inl e'
             | Inr decoded_msg \<Rightarrow> loads_decoded lib decoded_msg)
          else Inr (JObj []))"

text \<open>Line 211: \<open>type(msg.get("R", False)) is not bool\<close>.\<close>

definition is_snapshot :: "json \<Rightarrow> exn + bool" where
  "is_snapshot msg =
     (case py_get msg ''R'' (JBool False) of
        Inl e \<Rightarrow> Inl e
      | Inr r \<Rightarrow> Inr (case r of JBool _ \<Rightarrow> False | _ \<Rightarrow> True))"

text \<open>
  Line 214: \<open>len(msg.get("M", [])) > 0 and type(msg["M"][0]) == dict and
  msg["M"][0].get("M", None) == "uE"\<close>. When the length is positive the key is present,
  so \<open>msg["M"]\<close> is the value that \<open>get\<close> returned.
\<close>

definition is_market_delta :: "json \<Rightarrow> exn + bool" where
  "is_market_delta msg =
     (case py_get msg ''M'' (JArr []) of
        Inl e \<Rightarrow> Inl e
      | Inr m \<Rightarrow>
          (case py_len m of
             Inl e \<Rightarrow> Inl e
           | Inr n \<Rightarrow>
               if n > 0 then
                 (case py_index0 m of
                    Inl e \<Rightarrow> Inl e
                  | Inr m0 \<Rightarrow>
                      (case m0 of
                         JObj kvs \<Rightarrow> Inr (map_of kvs ''M'' = Some (JStr ''uE''))
                       | _ \<Rightarrow> Inr False))
               else Inr False))"

text \<open>
  Lines 225-227 and 238-240: \<open>output["results"].update({"M": f"..."})\<close>. The method
  \<open>update\<close> is looked up first (a dict has it), then the argument is computed from
  \<open>output['results']['M']\<close>, which must be a str with a hyphen.
\<close>

definition update_M :: "json \<Rightarrow> exn + json" where
  "update_M res =
     (case res of
        JObj kvs \<Rightarrow>
          (case map_of kvs ''M'' of
             None \<Rightarrow> Inl KeyError
           | Some (JStr m) \<Rightarrow>
               (case swap_pair CHR ''-'' m of
                  Inl e \<Rightarrow> Inl e
                | Inr m' \<Rightarrow> Inr (JObj (AList.update ''M'' (JStr m') kvs)))
           | Some _ \<Rightarrow> Inl AttributeError)
      | _ \<Rightarrow> Inl AttributeError)"

text \<open>The dict \<open>{"nonce": ..., "type": ..., "results": ...}\<close>; \<open>JNull\<close> and \<open>None\<close> stand for Python's \<open>None\<close>.\<close>

record decoded =
  nonce :: json
  out_type :: "string option"
  results :: json

text \<open>Lines 220-230 and 233-243 after the payload is chosen: decode, rewrite \<open>M\<close>, read \<open>N\<close>.\<close>

definition fill_output :: "codec \<Rightarrow> string \<Rightarrow> json \<Rightarrow> exn + decoded" where
  "fill_output lib kind raw_message =
     (case decode_message lib raw_message of
        Inl e \<Rightarrow> Inl e
      | Inr res \<Rightarrow>
          (case update_M res of
             Inl e \<Rightarrow> Inl e
           | Inr res' \<Rightarrow>
               (case py_getitem res' ''N'' of
                  Inl e \<Rightarrow> Inl e
                | Inr n \<Rightarrow> Inr \<lparr>nonce = n, out_type = Some kind, results = res'\<rparr>)))"

text \<open>Line 233: \<open>msg["M"][0]["A"][0]\<close>.\<close>

definition delta_payload :: "json \<Rightarrow> exn + json" where
  "delta_payload msg =
     (case py_getitem msg ''M'' of
        Inl e \<Rightarrow> Inl e
      | Inr m \<Rightarrow>
          (case py_index0 m of
             Inl e \<Rightarrow> Inl e
           | Inr m0 \<Rightarrow>
               (case py_getitem m0 ''A'' of
                  Inl e \<Rightarrow> Inl e
                | Inr a \<Rightarrow> py_index0 a)))"

definition transform_raw_message :: "codec \<Rightarrow> string \<Rightarrow> exn + decoded" where
  "transform_raw_message lib raw =
     (case loads lib raw of
        Inl e \<Rightarrow> Inl e
      | Inr msg \<Rightarrow>
          (case is_snapshot msg of
             Inl e \<Rightarrow> Inl e
           | Inr True \<Rightarrow>
               (case py_getitem msg ''R'' of
                  Inl e \<Rightarrow> Inl e
                | Inr r \<Rightarrow> fill_output lib ''snapshot'' r)
           | Inr False \<Rightarrow>
               (case is_market_delta msg of
                  Inl e \<Rightarrow> Inl e
                | Inr True \<Rightarrow>
                    (case delta_payload msg of
                       Inl e \<Rightarrow> Inl e
                     | Inr a \<Rightarrow> fill_output lib ''update'' a)
                | Inr False \<Rightarrow> Inr \<lparr>nonce = JNull, out_type = None, results = JObj []\<rparr>)))"

section \<open>The data source \<open>FtxAPIOrderBookDataSource\<close>\<close>

text \<open>Line 290: a slot \<open>{"timestamp": int(time.time()), "content": snapshot_msg}\<close>.\<close>

record snapshot_slot =
  slot_timestamp :: int
  content :: OrderBookMessage

text \<open>
  The fields of the object (\<open>self._trading_pairs\<close>, \<open>self._websocket_connection\<close>,
  \<open>self._websocket_hub\<close>, \<open>self._snapshot_msg\<close>) and what it does to the outside: the
  \<open>signalr_aio.Connection\<close> objects constructed so far (a new one is named by their
  count), the hubs registered on each connection, the connections started, the hub
  calls made and the log. \<open>None\<close> is Python's \<open>None\<close>.
\<close>

record data_source =
  self_trading_pairs :: "string list option"
  self_websocket_connection :: "nat option"
  self_websocket_hub :: "nat option"
  self_snapshot_msg :: "string \<rightharpoonup> snapshot_slot"
  connections_created :: nat
  registered_hubs :: "nat \<Rightarrow> nat list"
  started :: "nat list"
  invoked :: "(string \<times> string) list"
  ds_log :: "log_entry list"

text \<open>\<open>__init__\<close>, lines 52-57.\<close>

definition init_data_source :: "string list option \<Rightarrow> data_source" where
  "init_data_source trading_pairs =
     \<lparr>self_trading_pairs = trading_pairs, self_websocket_connection = None,
      self_websocket_hub = None, self_snapshot_msg = Map.empty, connections_created = 0,
      registered_hubs = (\<lambda>c. []), started = [], invoked = [], ds_log = []\<rparr>"

text \<open>
  Lines 94-106. \<open>active_markets\<close> is what
  \<open>(await self.get_active_exchange_markets()).index.tolist()\<close> gives when it is run: the
  catalog's names, or the exception of a failed fetch. \<open>not self._trading_pairs\<close> holds
  for \<open>None\<close> and for the empty list.
\<close>

definition get_trading_pairs :: "exn + string list \<Rightarrow> data_source \<Rightarrow> string list \<times> data_source" where
  "get_trading_pairs active_markets ds =
     (case self_trading_pairs ds of
        Some (tp # tps) \<Rightarrow> (tp # tps, ds)
      | _ \<Rightarrow>
          (case active_markets of
             Inr names \<Rightarrow> (names, ds\<lparr>self_trading_pairs := Some names\<rparr>)
           | Inl e \<Rightarrow>
               ([], ds\<lparr>self_trading_pairs := Some [],
                       ds_log := ds_log ds @
                         [NetworkWarning ''Error getting active exchange information. Check network connection.'']\<rparr>)))"

text \<open>\<open>self._websocket_hub.server.invoke(name, arg)\<close>: \<open>None\<close> has no attribute \<open>server\<close>.\<close>

definition hub_invoke :: "string \<Rightarrow> string \<Rightarrow> data_source \<Rightarrow> (exn + unit) \<times> data_source" where
  "hub_invoke name arg ds =
     (case self_websocket_hub ds of
        None \<Rightarrow> (Inl AttributeError, ds)
      | Some h \<Rightarrow> (Inr (), ds\<lparr>invoked := invoked ds @ [(name, arg)]\<rparr>))"

text \<open>The loop of lines 115-121.\<close>

fun subscribe_all :: "string list \<Rightarrow> data_source \<Rightarrow> (exn + unit) \<times> data_source" where
  "subscribe_all [] ds = (Inr (), ds)"
| "subscribe_all (trading_pair # rest) ds =
     (case swap_pair CHR ''/'' trading_pair of
        Inl e \<Rightarrow> (Inl e, ds)
      | Inr tp \<Rightarrow>
          (case hub_invoke ''SubscribeToExchangeDeltas'' tp
                  (ds\<lparr>ds_log := ds_log ds @ [InfoSubscribed tp]\<rparr>) of
             (Inl e, ds1) \<Rightarrow> (Inl e, ds1)
           | (Inr u, ds1) \<Rightarrow>
               (case hub_invoke ''queryExchangeState'' tp
                       (ds1\<lparr>ds_log := ds_log ds1 @ [InfoQuery tp]\<rparr>) of
                  (Inl e, ds2) \<Rightarrow> (Inl e, ds2)
                | (Inr u', ds2) \<Rightarrow> subscribe_all rest ds2)))"

text \<open>
  \<open>Connection.start()\<close> of \<open>signalr_aio\<close> takes the first hub registered on the connection
  and raises \<open>IndexError\<close> when there is none.
\<close>

definition connection_start :: "nat \<Rightarrow> data_source \<Rightarrow> (exn + unit) \<times> data_source" where
  "connection_start c ds =
     (case registered_hubs ds c of
        [] \<Rightarrow> (Inl IndexError, ds)
      | h # hs \<Rightarrow> (Inr (), ds\<lparr>started := started ds @ [c]\<rparr>))"

text \<open>
  Lines 108-125. The result is the pair \<open>(connection, hub)\<close>. No line of the class assigns
  \<open>self._websocket_hub\<close> anything but \<open>None\<close> (lines 56 and 308), and none registers a hub
  on the connection constructed at line 112.
\<close>

definition websocket_connection ::
  "exn + string list \<Rightarrow> data_source \<Rightarrow> (exn + nat \<times> nat option) \<times> data_source" where
  "websocket_connection active_markets ds =
     (case (self_websocket_connection ds, self_websocket_hub ds) of
        (Some c, Some h) \<Rightarrow> (Inr (c, Some h), ds)
      | _ \<Rightarrow>
          (let c = connections_created ds;
               ds1 = ds\<lparr>self_websocket_connection := Some c, connections_created := c + 1,
                        registered_hubs := (registered_hubs ds)(c := [])\<rparr>
           in case get_trading_pairs active_markets ds1 of
                (trading_pairs, ds2) \<Rightarrow>
                  (case subscribe_all trading_pairs ds2 of
                     (Inl e, ds3) \<Rightarrow> (Inl e, ds3)
                   | (Inr u, ds3) \<Rightarrow>
                       (case connection_start c ds3 of
                          (Inl e, ds4) \<Rightarrow> (Inl e, ds4)
                        | (Inr u', ds4) \<Rightarrow> (Inr (c, self_websocket_hub ds4), ds4)))))"

text \<open>Line 290, in the listener: \<open>self._snapshot_msg[trading_pair] = {...}\<close>.\<close>

definition store_snapshot :: "string \<times> snapshot_slot \<Rightarrow> data_source \<Rightarrow> data_source" where
  "store_snapshot w ds = ds\<lparr>self_snapshot_msg := (self_snapshot_msg ds)(fst w \<mapsto> snd w)\<rparr>"

text \<open>
  Lines 127-136. The loop polls, then sleeps one second; the listener runs during the
  sleeps. The list gives, for each poll made before the \<open>SNAPSHOT_TIMEOUT\<close> deadline, the
  slots that the listener stores during the sleep after it; when the list is used up the
  deadline has passed and \<open>asyncio.TimeoutError\<close> is raised. With a deadline of ten
  seconds the first poll is always made, so the list of a real call is not empty. A
  stored slot is a dict with two keys, so \<open>msg\<close> is false only when \<open>pop\<close> gave
  \<open>None\<close>.
\<close>

fun wait_for_snapshot ::
  "string \<Rightarrow> int \<Rightarrow> (string \<times> snapshot_slot) list list \<Rightarrow> data_source
     \<Rightarrow> (exn + OrderBookMessage) \<times> data_source" where
  "wait_for_snapshot trading_pair invoke_timestamp [] ds = (Inl TimeoutError, ds)"
| "wait_for_snapshot trading_pair invoke_timestamp (stored # later) ds =
     (let msg = self_snapshot_msg ds trading_pair;
          ds1 = ds\<lparr>self_snapshot_msg := (self_snapshot_msg ds)(trading_pair := None)\<rparr>
      in case msg of
           None \<Rightarrow> wait_for_snapshot trading_pair invoke_timestamp later (fold store_snapshot stored ds1)
         | Some m \<Rightarrow>
             if slot_timestamp m \<ge> invoke_timestamp then (Inr (content m), ds1)
             else wait_for_snapshot trading_pair invoke_timestamp later (fold store_snapshot stored ds1))"

text \<open>What the polls of one call see in the pair's slot, in order, whether or not they return.\<close>

fun polled :: "string \<Rightarrow> (string \<times> snapshot_slot) list list \<Rightarrow> data_source \<Rightarrow> snapshot_slot option list" where
  "polled trading_pair [] ds = []"
| "polled trading_pair (stored # later) ds =
     self_snapshot_msg ds trading_pair #
     polled trading_pair later
       (fold store_snapshot stored
          (ds\<lparr>self_snapshot_msg := (self_snapshot_msg ds)(trading_pair := None)\<rparr>))"

section \<open>The tracker \<open>FtxOrderBookTracker\<close>\<close>

text \<open>A task of the event loop, named by its number, and whether it is done.\<close>

record task =
  task_id :: nat
  is_done :: bool

text \<open>
  \<open>FtxOrderBookTrackerEntry\<close>, as far as \<open>_refresh_tracking_tasks\<close> reads it: the entry's
  order book and its active order tracker (an object, named by a number).
\<close>

record FtxOrderBookTrackerEntry =
  entry_order_book :: OrderBook
  entry_active_order_tracker :: nat

text \<open>
  The per-instrument dicts of the tracker (lines 55-58 and those of the base class), each
  an association list with one binding per key, together with the tasks created and
  cancelled so far and the log.
\<close>

record tracker =
  tracking_tasks :: "(string \<times> task) list"
  order_books :: "(string \<times> OrderBook) list"
  active_order_trackers :: "(string \<times> nat) list"
  tracking_message_queues :: "(string \<times> OrderBookMessage list) list"
  saved_message_queues :: "(string \<times> OrderBookMessage list) list"
  past_diffs_windows :: "(string \<times> OrderBookMessage list) list"
  tasks_created :: nat
  cancelled :: "nat list"
  tracker_log :: "log_entry list"

definition init_tracker :: tracker where
  "init_tracker =
     \<lparr>tracking_tasks = [], order_books = [], active_order_trackers = [],
      tracking_message_queues = [], saved_message_queues = [], past_diffs_windows = [],
      tasks_created = 0, cancelled = [], tracker_log = []\<rparr>"

text \<open>\<open>del d[key]\<close> raises \<open>KeyError\<close> on a missing key, also for a \<open>defaultdict\<close>.\<close>

definition py_del :: "string \<Rightarrow> (string \<times> 'a) list \<Rightarrow> exn + (string \<times> 'a) list" where
  "py_del key d = (case map_of d key of None \<Rightarrow> Inl KeyError | Some v \<Rightarrow> Inr (AList.delete key d))"

text \<open>Lines 87-93, the body of the first loop.\<close>

definition start_tracking :: "(string \<times> FtxOrderBookTrackerEntry) list \<Rightarrow> string \<Rightarrow> tracker \<Rightarrow> exn + tracker" where
  "start_tracking available_pairs trading_pair t =
     (case map_of available_pairs trading_pair of
        None \<Rightarrow> Inl KeyError
      | Some order_book_tracker_entry \<Rightarrow>
          Inr (t\<lparr>active_order_trackers :=
                   AList.update trading_pair (entry_active_order_tracker order_book_tracker_entry)
                     (active_order_trackers t),
                 order_books :=
                   AList.update trading_pair (entry_order_book order_book_tracker_entry) (order_books t),
                 tracking_message_queues := AList.update trading_pair [] (tracking_message_queues t),
                 tracking_tasks :=
                   AList.update trading_pair \<lparr>task_id = tasks_created t, is_done = False\<rparr>
                     (tracking_tasks t),
                 tasks_created := tasks_created t + 1,
                 tracker_log := tracker_log t @ [StartedTracking trading_pair]\<rparr>))"

text \<open>
  Lines 95-101, the body of the second loop; an exception leaves the assignments made
  before it in place.
\<close>

definition stop_tracking :: "string \<Rightarrow> tracker \<Rightarrow> (exn + unit) \<times> tracker" where
  "stop_tracking trading_pair t =
     (case map_of (tracking_tasks t) trading_pair of
        None \<Rightarrow> (Inl KeyError, t)
      | Some tk \<Rightarrow>
          (let t1 = t\<lparr>cancelled := cancelled t @ [task_id tk],
                      tracking_tasks := AList.delete trading_pair (tracking_tasks t)\<rparr>
           in case py_del trading_pair (order_books t1) of
                Inl e \<Rightarrow> (Inl e, t1)
              | Inr obs \<Rightarrow>
                  (let t2 = t1\<lparr>order_books := obs\<rparr>
                   in case py_del trading_pair (active_order_trackers t2) of
                        Inl e \<Rightarrow> (Inl e, t2)
                      | Inr aots \<Rightarrow>
                          (let t3 = t2\<lparr>active_order_trackers := aots\<rparr>
                           in case py_del trading_pair (tracking_message_queues t3) of
                                Inl e \<Rightarrow> (Inl e, t3)
                              | Inr qs \<Rightarrow>
                                  (Inr (), t3\<lparr>tracking_message_queues := qs,
                                             tracker_log := tracker_log t3 @ [StoppedTracking trading_pair]\<rparr>)))))"

fun start_all :: "(string \<times> FtxOrderBookTrackerEntry) list \<Rightarrow> string list \<Rightarrow> tracker \<Rightarrow> (exn + unit) \<times> tracker" where
  "start_all available_pairs [] t = (Inr (), t)"
| "start_all available_pairs (trading_pair # rest) t =
     (case start_tracking available_pairs trading_pair t of
        Inl e \<Rightarrow> (Inl e, t)
      | Inr t' \<Rightarrow> start_all available_pairs rest t')"

fun stop_all :: "string list \<Rightarrow> tracker \<Rightarrow> (exn + unit) \<times> tracker" where
  "stop_all [] t = (Inr (), t)"
| "stop_all (trading_pair # rest) t =
     (case stop_tracking trading_pair t of
        (Inl e, t') \<Rightarrow> (Inl e, t')
      | (Inr u, t') \<Rightarrow> stop_all rest t')"

text \<open>
  Lines 79-85. \<open>available_pairs\<close> is the dict that \<open>get_tracking_pairs\<close> returned. The sets
  are lists without repetition here, in the order of the dicts they come from; Python
  leaves the iteration order of a set open.
\<close>

definition tracking_trading_pair :: "tracker \<Rightarrow> string list" where
  "tracking_trading_pair t = map fst (filter (\<lambda>kv. \<not> is_done (snd kv)) (tracking_tasks t))"

definition new_trading_pair :: "(string \<times> FtxOrderBookTrackerEntry) list \<Rightarrow> tracker \<Rightarrow> string list" where
  "new_trading_pair available_pairs t =
     filter (\<lambda>k. k \<notin> set (tracking_trading_pair t)) (remdups (map fst available_pairs))"

definition deleted_trading_pair :: "(string \<times> FtxOrderBookTrackerEntry) list \<Rightarrow> tracker \<Rightarrow> string list" where
  "deleted_trading_pair available_pairs t =
     filter (\<lambda>k. k \<notin> set (map fst available_pairs)) (remdups (tracking_trading_pair t))"

definition refresh_tracking_tasks :: "(string \<times> FtxOrderBookTrackerEntry) list \<Rightarrow> tracker \<Rightarrow> (exn + unit) \<times> tracker" where
  "refresh_tracking_tasks available_pairs t =
     (case start_all available_pairs (new_trading_pair available_pairs t) t of
        (Inl e, t1) \<Rightarrow> (Inl e, t1)
      | (Inr u, t1) \<Rightarrow> stop_all (deleted_trading_pair available_pairs t) t1)"

text \<open>
  What a task started for \<open>trading_pair\<close> does before it first waits (lines 104-116): it
  binds a fresh deque in \<open>_past_diffs_windows\<close>, reads the pair's queue and order book
  (\<open>KeyError\<close> ends the task when one is missing), and reading
  \<open>self._saved_message_queues[trading_pair]\<close> makes the \<open>defaultdict\<close> bind an empty
  \<open>deque(maxlen=1000)\<close> when the key is missing.
\<close>

definition track_single_book_begin :: "string \<Rightarrow> tracker \<Rightarrow> (exn + unit) \<times> tracker" where
  "track_single_book_begin trading_pair t =
     (let t1 = t\<lparr>past_diffs_windows := AList.update trading_pair [] (past_diffs_windows t)\<rparr>
      in case map_of (tracking_message_queues t1) trading_pair of
           None \<Rightarrow> (Inl KeyError, t1)
         | Some q \<Rightarrow>
             (case map_of (order_books t1) trading_pair of
                None \<Rightarrow> (Inl KeyError, t1)
              | Some ob \<Rightarrow>
                  (Inr (),
                   t1\<lparr>saved_message_queues :=
                        (case map_of (saved_message_queues t1) trading_pair of
                           None \<Rightarrow> AList.update trading_pair [] (saved_message_queues t1)
                         | Some d \<Rightarrow> saved_message_queues t1)\<rparr>)))"

section \<open>Concrete inputs\<close>

definition empty_book :: OrderBook where
  "empty_book = \<lparr>bid_book = Map.empty, ask_book = Map.empty, last_applied_token = 0\<rparr>"

definition diff_12 :: OrderBookMessage where
  "diff_12 = \<lparr>msg_type = DIFF, timestamp = 12, bids = [(100, 1)], asks = []\<rparr>"

definition snapshot_10 :: OrderBookMessage where
  "snapshot_10 = \<lparr>msg_type = SNAPSHOT, timestamp = 10, bids = [(200, 2)], asks = []\<rparr>"

text \<open>
  An instrument whose book has not had a snapshot yet: one diff (token 12) waits in the
  saved deque, the snapshot (token 10) is on the queue.
\<close>

definition awaiting_example :: tracking where
  "awaiting_example =
     \<lparr>order_book = empty_book, saved_messages = [diff_12], message_queue = [snapshot_10],
      past_diffs_window = [], last_message_timestamp = 0, diff_messages_accepted = 0,
      debug_log = []\<rparr>"

text \<open>
  The reconciler's snapshot rule in the spec's words: replace the rows, set the token,
  discard the buffered diffs whose token is \<open>\<le>\<close> the snapshot's, replay the others in
  token order.
\<close>

definition spec_snapshot_replay :: "OrderBook \<Rightarrow> OrderBookMessage \<Rightarrow> OrderBookMessage list \<Rightarrow> OrderBook" where
  "spec_snapshot_replay ob snapshot buffered =
     foldl apply_message (apply_message ob snapshot)
       (sort_key timestamp (filter (\<lambda>d. timestamp d > timestamp snapshot) buffered))"

text \<open>The spec's scenario: a book at token 100 with one bid at price 100, and a diff with token 99.\<close>

definition synced_book :: OrderBook where
  "synced_book = \<lparr>bid_book = [100 \<mapsto> 1], ask_book = Map.empty, last_applied_token = 100\<rparr>"

definition diff_99 :: OrderBookMessage where
  "diff_99 = \<lparr>msg_type = DIFF, timestamp = 99, bids = [(100, 0)], asks = []\<rparr>"

definition synced_example :: tracking where
  "synced_example =
     \<lparr>order_book = synced_book, saved_messages = [], message_queue = [diff_99],
      past_diffs_window = [], last_message_timestamp = 0, diff_messages_accepted = 0,
      debug_log = []\<rparr>"

text \<open>A full saved deque and a full window of size 1.\<close>

definition full_example :: tracking where
  "full_example =
     \<lparr>order_book = empty_book, saved_messages = replicate 1000 diff_99, message_queue = [],
      past_diffs_window = [diff_99], last_message_timestamp = 0, diff_messages_accepted = 0,
      debug_log = []\<rparr>"

text \<open>Frames and payloads as texts; \<open>quoted\<close> puts a text between double quotes.\<close>

definition quoted :: "string \<Rightarrow> string" where
  "quoted s = CHR 0x22 # s @ [CHR 0x22]"

text \<open>The payload \<open>{"M": "USD-BTC", "N": 7}\<close>, its raw DEFLATE and its zlib stream in base64.\<close>

definition payload_text :: string where
  "payload_text = ''{'' @ quoted ''M'' @ '': '' @ quoted ''USD-BTC'' @ '', '' @ quoted ''N'' @ '': 7}''"

definition payload_deflate :: string where
  "payload_deflate = ''q1byVbJSUAoNdtF1CnFW0lFQ8gPyzWsB''"

definition payload_zlib :: string where
  "payload_zlib = ''eJyrVvJVslJQCg120XUKcVbSUVDyA/LNawFGUwWJ''"

text \<open>\<open>{"R": "q1by..."}\<close>, a snapshot frame.\<close>

definition snapshot_frame :: string where
  "snapshot_frame = ''{'' @ quoted ''R'' @ '': '' @ quoted payload_deflate @ ''}''"

text \<open>\<open>{"M": [{"M": "uE", "A": ["q1by..."]}]}\<close>, a market delta frame.\<close>

definition delta_frame :: string where
  "delta_frame =
     ''{'' @ quoted ''M'' @ '': [{'' @ quoted ''M'' @ '': '' @ quoted ''uE'' @ '', '' @
     quoted ''A'' @ '': ['' @ quoted payload_deflate @ '']}]}''"

text \<open>\<open>{"R": "eJyr..."}\<close>, a snapshot frame whose payload is in the alternate (zlib) framing.\<close>

definition zlib_frame :: string where
  "zlib_frame = ''{'' @ quoted ''R'' @ '': '' @ quoted payload_zlib @ ''}''"

text \<open>\<open>{"R": "!!!!"}\<close>, a snapshot frame whose payload is not base64.\<close>

definition malformed_frame :: string where
  "malformed_frame = ''{'' @ quoted ''R'' @ '': '' @ quoted ''!!!!'' @ ''}''"

text \<open>
  What the libraries do on these inputs: \<open>ujson.loads\<close> parses the four frames and the
  payload and raises \<open>ValueError\<close> on a text that is not JSON; raw inflation succeeds on
  the raw DEFLATE stream and raises \<open>zlib.error\<close> on the zlib stream, and the other way
  round for zlib inflation; \<open>b64decode(validate=True)\<close> raises \<open>binascii.Error\<close> on a
  str that is not base64 and \<open>TypeError\<close> on what is not a str.
\<close>

definition example_loads :: "string \<Rightarrow> exn + json" where
  "example_loads text =
     (if text = snapshot_frame then Inr (JObj [(''R'', JStr payload_deflate)])
      else if text = delta_frame then
        Inr (JObj [(''M'', JArr [JObj [(''M'', JStr ''uE''), (''A'', JArr [JStr payload_deflate])]])])
      else if text = zlib_frame then Inr (JObj [(''R'', JStr payload_zlib)])
      else if text = malformed_frame then Inr (JObj [(''R'', JStr ''!!!!'')])
      else if text = payload_text then Inr (JObj [(''M'', JStr ''USD-BTC''), (''N'', JNum 7)])
      else Inl ValueError)"

definition example_inflate :: "string \<Rightarrow> string \<Rightarrow> json \<Rightarrow> exn + string" where
  "example_inflate accepted rejected raw_message =
     (case raw_message of
        JStr s \<Rightarrow>
          if s = accepted then Inr payload_text
          else if s = rejected then Inl ZlibError
          else Inl BinasciiError
      | _ \<Rightarrow> Inl TypeError)"

definition example_lib :: codec where
  "example_lib =
     \<lparr>loads = example_loads,
      b64_inflate_raw = example_inflate payload_deflate payload_zlib,
      b64_inflate_zlib = example_inflate payload_zlib payload_deflate,
      decode_text = Inr\<rparr>"

text \<open>
  A data source with an established session: connection 0 is stored together with hub 0,
  which is registered on it, and the subscriptions of \<open>BTC-USD\<close> have been issued.
\<close>

definition connected_example :: data_source where
  "connected_example =
     \<lparr>self_trading_pairs = Some [''BTC/USD''], self_websocket_connection = Some 0,
      self_websocket_hub = Some 0, self_snapshot_msg = Map.empty, connections_created = 1,
      registered_hubs = (\<lambda>c. [])(0 := [0]), started = [0],
      invoked = [(''SubscribeToExchangeDeltas'', ''USD-BTC''), (''queryExchangeState'', ''USD-BTC'')],
      ds_log = [InfoSubscribed ''USD-BTC'', InfoQuery ''USD-BTC'']\<rparr>"

text \<open>
  A tracker that has started to track \<open>BTC-USD\<close> and \<open>ETH-USD\<close>: one refresh from the
  initial state with both pairs available, after which both tasks have begun.
\<close>

definition entry_example :: FtxOrderBookTrackerEntry where
  "entry_example = \<lparr>entry_order_book = empty_book, entry_active_order_tracker = 0\<rparr>"

definition tracked_example :: tracker where
  "tracked_example =
     snd (track_single_book_begin ''ETH-USD''
       (snd (track_single_book_begin ''BTC-USD''
         (snd (refresh_tracking_tasks
                 [(''BTC-USD'', entry_example), (''ETH-USD'', entry_example)] init_tracker)))))"

section \<open>Properties of the per-instrument loop\<close>

lemma trim_window_drop: "trim_window w d = drop (length d - w) d"
proof (induction w d rule: trim_window.induct)
  case (1 w d)
  show ?case
  proof (cases "length d > w")
    case True
    then obtain x xs where d: "d = x # xs" by (cases d) auto
    from True d have "length d - w = Suc (length xs - w)" by auto
    with 1 True d show ?thesis by (simp add: trim_window.simps[of w "x # xs"])
  next
    case False
    then show ?thesis by (simp add: trim_window.simps[of w d])
  qed
qed

text \<open>A price level after a list of rows: the last row for the price decides.\<close>

lemma fold_apply_row:
  "fold apply_row rows m p =
     (case map_of (rev rows) p of None \<Rightarrow> m p | Some sz \<Rightarrow> if sz = 0 then None else Some sz)"
proof (induction rows arbitrary: m)
  case Nil
  then show ?case by simp
next
  case (Cons r rows)
  obtain q sz where r: "r = (q, sz)" by (cases r)
  have first: "apply_row r m p = (if p = q then (if sz = 0 then None else Some sz) else m p)"
    by (simp add: apply_row_def r)
  have "fold apply_row (r # rows) m p =
     (case map_of (rev rows) p of None \<Rightarrow> apply_row r m p
      | Some sz \<Rightarrow> if sz = 0 then None else Some sz)"
    by (simp add: Cons)
  with first show ?case
    by (simp add: r map_add_def split: option.splits)
qed

lemma step_blocked:
  "track_single_book_step w tp now s = None \<longleftrightarrow> saved_messages s = [] \<and> message_queue s = []"
  by (auto simp: track_single_book_step_def next_message_def split: list.splits option.splits)

lemma next_message_Some:
  "next_message s = Some (m, s1) \<Longrightarrow>
     saved_messages s @ message_queue s = m # (saved_messages s1 @ message_queue s1) \<and>
     order_book s1 = order_book s"
  by (cases "saved_messages s") (auto simp: next_message_def split: list.splits if_splits)

lemma step_Some:
  assumes "track_single_book_step w tp now s = Some s'"
  shows "\<exists>m. saved_messages s @ message_queue s = m # (saved_messages s' @ message_queue s') \<and>
     order_book s' = apply_message (order_book s) m"
proof -
  from assms obtain m s1 where n: "next_message s = Some (m, s1)"
    by (auto simp: track_single_book_step_def split: option.splits)
  from next_message_Some[OF n] assms n show ?thesis
    by (auto simp: track_single_book_step_def apply_message_def Let_def
        convert_diff_message_to_order_book_row_def convert_snapshot_message_to_order_book_row_def)
qed

lemma diff_from_buffer_applied:
  "bid_book (order_book (exec 32 ''BTC-USD'' awaiting_example (Iteration 1))) 100 = Some 1"
  by (simp add: awaiting_example_def track_single_book_step_def next_message_def diff_12_def
      convert_diff_message_to_order_book_row_def apply_diffs_def apply_row_def empty_book_def Let_def)

lemma diff_not_replayed:
  "bid_book (order_book (foldl (exec 32 ''BTC-USD'') awaiting_example [Iteration 1, Iteration 2])) 100 = None"
  by (simp add: awaiting_example_def track_single_book_step_def next_message_def diff_12_def
      snapshot_10_def convert_diff_message_to_order_book_row_def
      convert_snapshot_message_to_order_book_row_def apply_diffs_def apply_snapshot_def
      apply_row_def empty_book_def Let_def)

lemma spec_replays_diff:
  "bid_book (spec_snapshot_replay empty_book snapshot_10 [diff_12]) 100 = Some 1"
  by (simp add: spec_snapshot_replay_def diff_12_def snapshot_10_def apply_message_def
       apply_diffs_def apply_snapshot_def apply_row_def empty_book_def)

text \<open>
  C1, as stated, fails. The instrument of \<open>awaiting_example\<close> has had no snapshot; its
  buffered diff (token 12) is applied to the book by the first iteration, and after the
  snapshot (token 10) is processed the book no longer holds the diff's bid at price 100,
  which a replay of the buffered diffs with a token above 10 would have put there.
\<close>

theorem buffered_diff_counterexample:
  "saved_messages awaiting_example = [diff_12] \<and> msg_type diff_12 = DIFF \<and>
   order_book (exec 32 ''BTC-USD'' awaiting_example (Iteration 1)) \<noteq> order_book awaiting_example \<and>
   bid_book (order_book (exec 32 ''BTC-USD'' awaiting_example (Iteration 1))) 100 = Some 1 \<and>
   bid_book (order_book (foldl (exec 32 ''BTC-USD'') awaiting_example [Iteration 1, Iteration 2])) 100 = None \<and>
   bid_book (spec_snapshot_replay empty_book snapshot_10 [diff_12]) 100 = Some 1"
proof -
  have "bid_book (order_book awaiting_example) 100 = None"
    by (simp add: awaiting_example_def empty_book_def)
  with diff_from_buffer_applied
  have "order_book (exec 32 ''BTC-USD'' awaiting_example (Iteration 1)) \<noteq> order_book awaiting_example"
    by auto
  with diff_from_buffer_applied diff_not_replayed spec_replays_diff show ?thesis
    by (simp add: awaiting_example_def diff_12_def)
qed

text \<open>
  C1, amended. The loop has no state in which it awaits a snapshot: every iteration takes
  the oldest saved message if there is one, else the next message of the queue, and
  applies it at once, a DIFF through \<open>apply_diffs\<close> and a SNAPSHOT through
  \<open>apply_snapshot\<close>. After any number of iterations the book is the result of applying
  that many messages of the saved deque followed by the queue, in this order, and the
  messages left are the rest of that sequence: a snapshot discards no buffered diff and
  nothing is replayed by token.
\<close>

theorem iterations_apply_in_arrival_order:
  "order_book (foldl (exec w tp) s (map Iteration nows)) =
     foldl apply_message (order_book s)
       (take (length nows) (saved_messages s @ message_queue s)) \<and>
   saved_messages (foldl (exec w tp) s (map Iteration nows)) @
     message_queue (foldl (exec w tp) s (map Iteration nows)) =
     drop (length nows) (saved_messages s @ message_queue s)"
proof (induction nows arbitrary: s)
  case Nil
  then show ?case by simp
next
  case (Cons now nows)
  show ?case
  proof (cases "track_single_book_step w tp now s")
    case None
    then have "saved_messages s = []" "message_queue s = []" by (simp_all add: step_blocked)
    with None Cons[of s] show ?thesis by simp
  next
    case (Some s')
    from step_Some[OF Some] obtain m where
      m: "saved_messages s @ message_queue s = m # (saved_messages s' @ message_queue s')"
         "order_book s' = apply_message (order_book s) m" by blast
    show ?thesis using Cons[of s'] Some m by simp
  qed
qed

theorem iterations_apply_in_arrival_order_witness:
  "last_applied_token
     (order_book (foldl (exec 32 ''BTC-USD'') awaiting_example (map Iteration [1, 2]))) = 10 \<and>
   saved_messages (foldl (exec 32 ''BTC-USD'') awaiting_example (map Iteration [1, 2])) @
     message_queue (foldl (exec 32 ''BTC-USD'') awaiting_example (map Iteration [1, 2])) = []"
  using iterations_apply_in_arrival_order [of 32 "''BTC-USD''" awaiting_example "[1, 2]"]
  by (simp add: awaiting_example_def apply_message_def diff_12_def snapshot_10_def
      apply_snapshot_def apply_diffs_def)

lemma stale_diff_is_noop:
  "update_id \<le> last_applied_token ob \<Longrightarrow> apply_diffs ob bs as update_id = ob"
  by (simp add: apply_diffs_def)

text \<open>A diff with a newer token: the token is taken over and the last row for a price decides.\<close>

lemma fresh_diff_applied:
  assumes "last_applied_token ob < update_id"
  shows "last_applied_token (apply_diffs ob bs as update_id) = update_id \<and>
     bid_book (apply_diffs ob bs as update_id) p =
       (case map_of (rev bs) p of
          None \<Rightarrow> bid_book ob p
        | Some sz \<Rightarrow> if sz = 0 then None else Some sz) \<and>
     ask_book (apply_diffs ob bs as update_id) p =
       (case map_of (rev as) p of
          None \<Rightarrow> ask_book ob p
        | Some sz \<Rightarrow> if sz = 0 then None else Some sz)"
  using assms by (simp add: apply_diffs_def fold_apply_row)

text \<open>
  C2. Whenever the message that an iteration takes is a DIFF whose token is less than or
  equal to the order book's last-applied token, the iteration does not block and leaves
  the order book as it was, for every such token. The loop hands the diff to
  \<open>apply_diffs\<close> (lines 122-124), and the order book, as the spec describes it, discards
  it.
\<close>

theorem stale_diff_leaves_book_unchanged:
  assumes taken: "saved_messages s @ message_queue s = m # rest"
    and diff: "msg_type m = DIFF"
    and stale: "timestamp m \<le> last_applied_token (order_book s)"
  shows "\<exists>s'. track_single_book_step w tp now s = Some s' \<and> order_book s' = order_book s"
proof -
  from taken have "track_single_book_step w tp now s \<noteq> None"
    by (auto simp: step_blocked)
  then obtain s' where s': "track_single_book_step w tp now s = Some s'" by auto
  from step_Some[OF s'] taken have "order_book s' = apply_message (order_book s) m"
    by auto
  with diff have "order_book s' = apply_diffs (order_book s) (bids m) (asks m) (timestamp m)"
    by (simp add: apply_message_def)
  with stale have "order_book s' = order_book s"
    by (simp add: stale_diff_is_noop)
  with s' show ?thesis by simp
qed

theorem stale_diff_leaves_book_unchanged_witness:
  "saved_messages synced_example @ message_queue synced_example = diff_99 # [] \<and>
   msg_type diff_99 = DIFF \<and>
   timestamp diff_99 \<le> last_applied_token (order_book synced_example) \<and>
   (\<exists>s'. track_single_book_step 32 ''BTC-USD'' 1 synced_example = Some s' \<and>
      order_book s' = order_book synced_example \<and>
      bid_book (order_book s') 100 = Some 1 \<and> last_applied_token (order_book s') = 100)"
proof -
  have h1: "saved_messages synced_example @ message_queue synced_example = diff_99 # []"
    by (simp add: synced_example_def)
  have h2: "msg_type diff_99 = DIFF" by (simp add: diff_99_def)
  have h3: "timestamp diff_99 \<le> last_applied_token (order_book synced_example)"
    by (simp add: diff_99_def synced_example_def synced_book_def)
  from stale_diff_leaves_book_unchanged [OF h1 h2 h3, of 32 "''BTC-USD''" 1] obtain s' where
    s: "track_single_book_step 32 ''BTC-USD'' 1 synced_example = Some s'"
       "order_book s' = order_book synced_example" by blast
  have "bid_book (order_book synced_example) 100 = Some 1 \<and>
      last_applied_token (order_book synced_example) = 100"
    by (simp add: synced_example_def synced_book_def)
  with s h1 h2 h3 show ?thesis by simp
qed

subsection \<open>The bounded buffers\<close>

lemma deque_append_length: "length d \<le> n \<Longrightarrow> length (deque_append n d x) \<le> n"
  by (simp add: deque_append_def Let_def)

lemma deque_append_full: "length d = n \<Longrightarrow> 0 < n \<Longrightarrow> deque_append n d x = tl d @ [x]"
  by (cases d) (simp_all add: deque_append_def Let_def)

lemma trim_window_length: "length (trim_window w d) \<le> w"
  by (simp add: trim_window_drop)

lemma step_saved_length:
  "track_single_book_step w tp now s = Some s' \<Longrightarrow>
     length (saved_messages s') \<le> length (saved_messages s)"
  by (auto simp: track_single_book_step_def next_message_def Let_def
        convert_diff_message_to_order_book_row_def convert_snapshot_message_to_order_book_row_def
      split: if_splits list.splits)

lemma step_past_length:
  "track_single_book_step w tp now s = Some s' \<Longrightarrow> length (past_diffs_window s) \<le> w \<Longrightarrow>
     length (past_diffs_window s') \<le> w"
  by (auto simp: track_single_book_step_def next_message_def Let_def trim_window_length
        convert_diff_message_to_order_book_row_def convert_snapshot_message_to_order_book_row_def
      split: if_splits list.splits)

lemma exec_bounded:
  assumes a: "length (saved_messages s) \<le> saved_maxlen" "length (past_diffs_window s) \<le> w"
  shows "length (saved_messages (exec w tp s ev)) \<le> saved_maxlen \<and>
     length (past_diffs_window (exec w tp s ev)) \<le> w"
proof (cases ev)
  case (Iteration now)
  show ?thesis
  proof (cases "track_single_book_step w tp now s")
    case None
    with a Iteration show ?thesis by simp
  next
    case (Some s')
    from step_saved_length[OF Some] step_past_length[OF Some a(2)] a Iteration Some
    show ?thesis by simp
  qed
next
  case (Saved m)
  with a show ?thesis by (simp add: deque_append_length)
next
  case (Routed m)
  with a show ?thesis by simp
qed

lemma run_bounded:
  "length (saved_messages s) \<le> saved_maxlen \<Longrightarrow> length (past_diffs_window s) \<le> w \<Longrightarrow>
   length (saved_messages (foldl (exec w tp) s evs)) \<le> saved_maxlen \<and>
   length (past_diffs_window (foldl (exec w tp) s evs)) \<le> w"
proof (induction evs arbitrary: s)
  case Nil
  then show ?case by simp
next
  case (Cons ev evs)
  from exec_bounded[OF Cons.prems, of tp ev] Cons.IH[of "exec w tp s ev"]
  show ?case by simp
qed

lemma step_past_full:
  assumes "saved_messages s @ message_queue s = m # rest" "msg_type m = DIFF"
    "length (past_diffs_window s) = w" "0 < w"
  shows "past_diffs_window (exec w tp s (Iteration now)) = tl (past_diffs_window s) @ [m]"
proof -
  from assms(3,4) obtain x xs where p: "past_diffs_window s = x # xs"
    by (cases "past_diffs_window s") auto
  with assms(3) have "trim_window w (past_diffs_window s @ [m]) = xs @ [m]"
    by (simp add: trim_window_drop)
  with assms(1,2) p show ?thesis
    by (cases "saved_messages s")
       (auto simp: track_single_book_step_def next_message_def Let_def
        convert_diff_message_to_order_book_row_def split: list.splits)
qed

text \<open>
  C6. Whatever the router enqueues and whenever the task runs, the saved deque of an
  instrument never holds more than its capacity (1000) and the window of past diffs never
  more than \<open>PAST_DIFF_WINDOW_SIZE\<close>, provided they start within these bounds (both start
  empty). When a message is appended to a full saved deque, and when a DIFF is processed
  with a full window, the oldest entry is the one dropped.
\<close>

theorem replay_buffer_bounded:
  assumes "length (saved_messages s) \<le> saved_maxlen" and "length (past_diffs_window s) \<le> w"
  shows "length (saved_messages (foldl (exec w tp) s evs)) \<le> saved_maxlen \<and>
     length (past_diffs_window (foldl (exec w tp) s evs)) \<le> w \<and>
     (length (saved_messages s) = saved_maxlen \<longrightarrow>
        saved_messages (exec w tp s (Saved m)) = tl (saved_messages s) @ [m]) \<and>
     (length (past_diffs_window s) = w \<and> 0 < w \<and> msg_type m = DIFF \<and>
      saved_messages s @ message_queue s = m # rest \<longrightarrow>
        past_diffs_window (exec w tp s (Iteration now)) = tl (past_diffs_window s) @ [m])"
proof -
  have "length (saved_messages s) = saved_maxlen \<longrightarrow>
        saved_messages (exec w tp s (Saved m)) = tl (saved_messages s) @ [m]"
    by (simp add: deque_append_full saved_maxlen_def)
  with run_bounded[OF assms] step_past_full show ?thesis
    by blast
qed

theorem replay_buffer_bounded_witness:
  "length (saved_messages full_example) \<le> saved_maxlen \<and>
   length (past_diffs_window full_example) \<le> 1 \<and>
   length (saved_messages full_example) = saved_maxlen \<and>
   length (past_diffs_window full_example) = 1 \<and> msg_type diff_99 = DIFF \<and>
   saved_messages full_example @ message_queue full_example = diff_99 # replicate 999 diff_99 \<and>
   length (saved_messages (foldl (exec 1 ''BTC-USD'') full_example [Saved diff_12, Iteration 1]))
     \<le> saved_maxlen \<and>
   length (past_diffs_window (foldl (exec 1 ''BTC-USD'') full_example [Saved diff_12, Iteration 1]))
     \<le> 1 \<and>
   saved_messages (exec 1 ''BTC-USD'' full_example (Saved diff_99)) =
     tl (saved_messages full_example) @ [diff_99] \<and>
   past_diffs_window (exec 1 ''BTC-USD'' full_example (Iteration 1)) =
     tl (past_diffs_window full_example) @ [diff_99]"
proof -
  have h1: "length (saved_messages full_example) \<le> saved_maxlen"
    by (simp add: full_example_def saved_maxlen_def)
  have h2: "length (past_diffs_window full_example) \<le> 1"
    by (simp add: full_example_def)
  have h3: "length (saved_messages full_example) = saved_maxlen"
    by (simp add: full_example_def saved_maxlen_def)
  have h4: "length (past_diffs_window full_example) = 1 \<and> msg_type diff_99 = DIFF"
    by (simp add: full_example_def diff_99_def)
  have "(1000::nat) = Suc 999" by simp
  then have "replicate 1000 diff_99 = diff_99 # replicate 999 diff_99"
    by (simp only: replicate_Suc)
  then have h5: "saved_messages full_example @ message_queue full_example =
      diff_99 # replicate 999 diff_99"
    by (simp add: full_example_def)
  from replay_buffer_bounded [OF h1 h2, of "''BTC-USD''" "[Saved diff_12, Iteration 1]" diff_99
      "replicate 999 diff_99" 1] h1 h2 h3 h4 h5
  show ?thesis by simp
qed

section \<open>Properties of the decoder\<close>

lemma split_on_no_sep: "sep \<notin> set s \<Longrightarrow> split_on sep s = [s]"
  by (induction s) auto

lemma split_on_sep: "sep \<notin> set q \<Longrightarrow> split_on sep (q @ sep # r) = q # split_on sep r"
  by (induction q) auto

lemma swap_pair_two_parts:
  assumes "sep \<notin> set q" and "sep \<notin> set b"
  shows "swap_pair sep (q @ sep # b) = Inr (b @ ''-'' @ q)"
proof -
  from assms have "split_on sep (q @ sep # b) = [q, b]"
    by (simp add: split_on_sep split_on_no_sep)
  then show ?thesis by (simp add: swap_pair_def py_nth_def)
qed

lemma update_M_swaps:
  assumes "map_of kvs ''M'' = Some (JStr (q @ ''-'' @ b))"
    and "CHR ''-'' \<notin> set q" and "CHR ''-'' \<notin> set b"
  shows "update_M (JObj kvs) = Inr (JObj (AList.update ''M'' (JStr (b @ ''-'' @ q)) kvs))"
proof -
  have "q @ ''-'' @ b = q @ CHR ''-'' # b" by simp
  with swap_pair_two_parts[OF assms(2,3)] have "swap_pair CHR ''-'' (q @ ''-'' @ b) = Inr (b @ ''-'' @ q)"
    by simp
  with assms(1) show ?thesis by (simp add: update_M_def)
qed

lemma fill_output_M:
  assumes "decode_message lib p = Inr (JObj kvs)"
    and "map_of kvs ''M'' = Some (JStr (q @ ''-'' @ b))"
    and "CHR ''-'' \<notin> set q" and "CHR ''-'' \<notin> set b"
  shows "fill_output lib kind p =
     (case map_of kvs ''N'' of
        None \<Rightarrow> Inl KeyError
      | Some n \<Rightarrow> Inr \<lparr>nonce = n, out_type = Some kind,
                       results = JObj (AList.update ''M'' (JStr (b @ ''-'' @ q)) kvs)\<rparr>)"
  using assms(1) update_M_swaps[OF assms(2,3,4)]
  by (simp add: fill_output_def py_getitem_def update_conv' split: option.splits)

lemma transform_is_fill_output:
  assumes "loads lib raw = Inr msg"
    and "(is_snapshot msg = Inr True \<and> py_getitem msg ''R'' = Inr p \<and> kind = ''snapshot'') \<or>
         (is_snapshot msg = Inr False \<and> is_market_delta msg = Inr True \<and>
          delta_payload msg = Inr p \<and> kind = ''update'')"
  shows "transform_raw_message lib raw = fill_output lib kind p"
  using assms by (auto simp: transform_raw_message_def)

text \<open>
  C7. Take a frame that is a snapshot (payload \<open>msg["R"]\<close>) or a market delta (payload
  \<open>msg["M"][0]["A"][0]\<close>) and whose payload decodes to a dict with the instrument
  \<open>QUOTE-BASE\<close> under \<open>M\<close>, neither part holding a hyphen. Then every record the decoder
  returns for it has the instrument \<open>BASE-QUOTE\<close> under \<open>M\<close>, and the decoder does
  return a record when the payload has a nonce \<open>N\<close>: the payload with \<open>M\<close> rewritten.
\<close>

theorem instrument_normalized:
  assumes "loads lib raw = Inr msg"
    and "(is_snapshot msg = Inr True \<and> py_getitem msg ''R'' = Inr p \<and> kind = ''snapshot'') \<or>
         (is_snapshot msg = Inr False \<and> is_market_delta msg = Inr True \<and>
          delta_payload msg = Inr p \<and> kind = ''update'')"
    and "decode_message lib p = Inr (JObj kvs)"
    and "map_of kvs ''M'' = Some (JStr (quote @ ''-'' @ base))"
    and "CHR ''-'' \<notin> set quote" and "CHR ''-'' \<notin> set base"
  shows "(\<forall>out. transform_raw_message lib raw = Inr out \<longrightarrow>
            py_getitem (results out) ''M'' = Inr (JStr (base @ ''-'' @ quote)) \<and>
            out_type out = Some kind) \<and>
         (\<forall>n. map_of kvs ''N'' = Some n \<longrightarrow>
            transform_raw_message lib raw =
              Inr \<lparr>nonce = n, out_type = Some kind,
                   results = JObj (AList.update ''M'' (JStr (base @ ''-'' @ quote)) kvs)\<rparr>)"
proof -
  have "transform_raw_message lib raw = fill_output lib kind p"
    by (rule transform_is_fill_output[OF assms(1,2)])
  with fill_output_M[OF assms(3,4,5,6), of kind] show ?thesis
    by (auto simp: py_getitem_def update_conv' split: option.splits)
qed

lemma example_loads_snapshot_frame:
  "loads example_lib snapshot_frame = Inr (JObj [(''R'', JStr payload_deflate)])"
  by (simp add: example_lib_def example_loads_def)

lemma example_loads_delta_frame:
  "loads example_lib delta_frame =
     Inr (JObj [(''M'', JArr [JObj [(''M'', JStr ''uE''), (''A'', JArr [JStr payload_deflate])]])])"
  by (simp add: example_lib_def example_loads_def delta_frame_def snapshot_frame_def quoted_def)

lemma example_loads_payload_text:
  "loads example_lib payload_text = Inr (JObj [(''M'', JStr ''USD-BTC''), (''N'', JNum 7)])"
  by (simp add: example_lib_def example_loads_def payload_text_def delta_frame_def
      snapshot_frame_def zlib_frame_def malformed_frame_def quoted_def)

lemma example_decode_payload:
  "decode_message example_lib (JStr payload_deflate) =
     Inr (JObj [(''M'', JStr ''USD-BTC''), (''N'', JNum 7)])"
proof -
  have "b64_inflate_raw example_lib (JStr payload_deflate) = Inr payload_text"
    by (simp add: example_lib_def example_inflate_def)
  moreover have "decode_text example_lib payload_text = Inr payload_text"
    by (simp add: example_lib_def)
  ultimately show ?thesis
    by (simp add: decode_message_def loads_decoded_def example_loads_payload_text)
qed

theorem instrument_normalized_witness:
  "transform_raw_message example_lib snapshot_frame =
     Inr \<lparr>nonce = JNum 7, out_type = Some ''snapshot'',
          results = JObj [(''M'', JStr ''BTC-USD''), (''N'', JNum 7)]\<rparr> \<and>
   transform_raw_message example_lib delta_frame =
     Inr \<lparr>nonce = JNum 7, out_type = Some ''update'',
          results = JObj [(''M'', JStr ''BTC-USD''), (''N'', JNum 7)]\<rparr> \<and>
   py_getitem (JObj [(''M'', JStr ''BTC-USD''), (''N'', JNum 7)]) ''M'' = Inr (JStr ''BTC-USD'')"
proof -
  let ?kvs = "[(''M'', JStr ''USD-BTC''), (''N'', JNum 7)]"
  have m: "map_of ?kvs ''M'' = Some (JStr (''USD'' @ ''-'' @ ''BTC''))" by simp
  have q: "CHR ''-'' \<notin> set ''USD''" and b: "CHR ''-'' \<notin> set ''BTC''" by simp_all
  have n: "map_of ?kvs ''N'' = Some (JNum 7)" by simp
  have s: "(is_snapshot (JObj [(''R'', JStr payload_deflate)]) = Inr True \<and>
        py_getitem (JObj [(''R'', JStr payload_deflate)]) ''R'' = Inr (JStr payload_deflate) \<and>
        ''snapshot'' = ''snapshot'') \<or>
       (is_snapshot (JObj [(''R'', JStr payload_deflate)]) = Inr False \<and>
        is_market_delta (JObj [(''R'', JStr payload_deflate)]) = Inr True \<and>
        delta_payload (JObj [(''R'', JStr payload_deflate)]) = Inr (JStr payload_deflate) \<and>
        ''snapshot'' = ''update'')"
    by (simp add: is_snapshot_def py_get_def py_getitem_def)
  let ?d = "JObj [(''M'', JArr [JObj [(''M'', JStr ''uE''), (''A'', JArr [JStr payload_deflate])]])]"
  have d: "(is_snapshot ?d = Inr True \<and> py_getitem ?d ''R'' = Inr (JStr payload_deflate) \<and>
        ''update'' = ''snapshot'') \<or>
       (is_snapshot ?d = Inr False \<and> is_market_delta ?d = Inr True \<and>
        delta_payload ?d = Inr (JStr payload_deflate) \<and> ''update'' = ''update'')"
    by (simp add: is_snapshot_def is_market_delta_def delta_payload_def py_get_def
        py_getitem_def py_len_def py_index0_def)
  from instrument_normalized [OF example_loads_snapshot_frame s example_decode_payload m q b] n
  have 1: "transform_raw_message example_lib snapshot_frame =
     Inr \<lparr>nonce = JNum 7, out_type = Some ''snapshot'',
          results = JObj [(''M'', JStr ''BTC-USD''), (''N'', JNum 7)]\<rparr>"
    by simp
  from instrument_normalized [OF example_loads_delta_frame d example_decode_payload m q b] n
  have 2: "transform_raw_message example_lib delta_frame =
     Inr \<lparr>nonce = JNum 7, out_type = Some ''update'',
          results = JObj [(''M'', JStr ''BTC-USD''), (''N'', JNum 7)]\<rparr>"
    by simp
  from 1 2 show ?thesis by (simp add: py_getitem_def)
qed

lemma undecodable_payload_is_empty:
  "b64_inflate_raw lib r = Inl e \<Longrightarrow> e \<noteq> SyntaxError \<Longrightarrow> decode_message lib r = Inr (JObj [])"
  by (simp add: decode_message_def)

lemma undecodable_snapshot_raises:
  assumes "loads lib raw = Inr (JObj kvs)" and "map_of kvs ''R'' = Some r"
    and "is_snapshot (JObj kvs) = Inr True"
    and "b64_inflate_raw lib r = Inl e" and "e \<noteq> SyntaxError"
  shows "transform_raw_message lib raw = Inl KeyError"
  using assms undecodable_payload_is_empty[OF assms(4,5)]
  by (simp add: transform_raw_message_def fill_output_def update_M_def py_getitem_def)

text \<open>
  C3, at its failing inputs. A frame that is not JSON makes \<open>_transform_raw_message\<close> raise
  \<open>ValueError\<close>. For the snapshot frame \<open>{"R": "!!!!"}\<close> the payload is not base64:
  \<open>_decode_message\<close> returns \<open>{}\<close> and the decoder then raises \<open>KeyError\<close> at
  \<open>output['results']['M']\<close>. For the snapshot frame whose payload is a zlib stream the
  primary scheme fails, the alternate one would give the payload, but it is not tried:
  \<open>_decode_message\<close> returns \<open>{}\<close> and the decoder raises \<open>KeyError\<close>.
\<close>

theorem malformed_frame_raises:
  "transform_raw_message example_lib ''not json'' = Inl ValueError \<and>
   decode_message example_lib (JStr ''!!!!'') = Inr (JObj []) \<and>
   transform_raw_message example_lib malformed_frame = Inl KeyError \<and>
   b64_inflate_raw example_lib (JStr payload_zlib) = Inl ZlibError \<and>
   b64_inflate_zlib example_lib (JStr payload_zlib) = Inr payload_text \<and>
   decode_message example_lib (JStr payload_zlib) = Inr (JObj []) \<and>
   transform_raw_message example_lib zlib_frame = Inl KeyError"
proof -
  have 1: "transform_raw_message example_lib ''not json'' = Inl ValueError"
    by (simp add: transform_raw_message_def example_lib_def example_loads_def snapshot_frame_def
        delta_frame_def zlib_frame_def malformed_frame_def payload_text_def quoted_def)
  have b: "b64_inflate_raw example_lib (JStr ''!!!!'') = Inl BinasciiError"
    by (simp add: example_lib_def example_inflate_def payload_deflate_def payload_zlib_def)
  have lm: "loads example_lib malformed_frame = Inr (JObj [(''R'', JStr ''!!!!'')])"
    by (simp add: example_lib_def example_loads_def snapshot_frame_def
        delta_frame_def zlib_frame_def malformed_frame_def quoted_def)
  have 3: "transform_raw_message example_lib malformed_frame = Inl KeyError"
    by (rule undecodable_snapshot_raises[OF lm _ _ b])
       (simp_all add: is_snapshot_def py_get_def)
  have z: "b64_inflate_raw example_lib (JStr payload_zlib) = Inl ZlibError"
    by (simp add: example_lib_def example_inflate_def payload_deflate_def payload_zlib_def)
  have z': "b64_inflate_zlib example_lib (JStr payload_zlib) = Inr payload_text"
    by (simp add: example_lib_def example_inflate_def)
  have lz: "loads example_lib zlib_frame = Inr (JObj [(''R'', JStr payload_zlib)])"
    by (simp add: example_lib_def example_loads_def snapshot_frame_def
        delta_frame_def zlib_frame_def quoted_def payload_deflate_def payload_zlib_def)
  have 7: "transform_raw_message example_lib zlib_frame = Inl KeyError"
    by (rule undecodable_snapshot_raises[OF lz _ _ z])
       (simp_all add: is_snapshot_def py_get_def)
  from 1 3 7 z z' undecodable_payload_is_empty[OF b] undecodable_payload_is_empty[OF z]
  show ?thesis by simp
qed

section \<open>Properties of the data source\<close>

subsection \<open>The instrument catalog\<close>

text \<open>
  C9. When the catalog fetch fails and no list of trading pairs is known yet (the field
  is \<open>None\<close> or empty), \<open>get_trading_pairs\<close> returns the empty list, stores it and logs
  a warning; the result of the model has no exception, as the \<open>except Exception\<close> branch
  of the source raises nothing.
\<close>

theorem catalog_failure_degrades:
  assumes "self_trading_pairs ds = None \<or> self_trading_pairs ds = Some []"
  shows "get_trading_pairs (Inl e) ds =
     ([], ds\<lparr>self_trading_pairs := Some [],
              ds_log := ds_log ds @
                [NetworkWarning ''Error getting active exchange information. Check network connection.'']\<rparr>)"
  using assms by (auto simp: get_trading_pairs_def)

theorem catalog_failure_degrades_witness:
  "(self_trading_pairs (init_data_source None) = None \<or>
    self_trading_pairs (init_data_source None) = Some []) \<and>
   fst (get_trading_pairs (Inl IOError) (init_data_source None)) = [] \<and>
   self_trading_pairs (snd (get_trading_pairs (Inl IOError) (init_data_source None))) = Some [] \<and>
   ds_log (snd (get_trading_pairs (Inl IOError) (init_data_source None))) =
     [NetworkWarning ''Error getting active exchange information. Check network connection.'']"
proof -
  have h: "self_trading_pairs (init_data_source None) = None \<or>
    self_trading_pairs (init_data_source None) = Some []"
    by (simp add: init_data_source_def)
  from catalog_failure_degrades [OF h, of IOError] h show ?thesis
    by (simp add: init_data_source_def)
qed

subsection \<open>Connecting\<close>

lemma get_trading_pairs_session:
  "self_websocket_connection (snd (get_trading_pairs am ds)) = self_websocket_connection ds \<and>
   self_websocket_hub (snd (get_trading_pairs am ds)) = self_websocket_hub ds \<and>
   connections_created (snd (get_trading_pairs am ds)) = connections_created ds \<and>
   registered_hubs (snd (get_trading_pairs am ds)) = registered_hubs ds"
  by (simp add: get_trading_pairs_def split: option.splits list.splits sum.splits)

lemma hub_invoke_session:
  "self_websocket_connection (snd (hub_invoke name arg ds)) = self_websocket_connection ds \<and>
   self_websocket_hub (snd (hub_invoke name arg ds)) = self_websocket_hub ds \<and>
   connections_created (snd (hub_invoke name arg ds)) = connections_created ds \<and>
   registered_hubs (snd (hub_invoke name arg ds)) = registered_hubs ds"
  by (simp add: hub_invoke_def split: option.splits)

lemma subscribe_all_session:
  "self_websocket_connection (snd (subscribe_all tps ds)) = self_websocket_connection ds \<and>
   self_websocket_hub (snd (subscribe_all tps ds)) = self_websocket_hub ds \<and>
   connections_created (snd (subscribe_all tps ds)) = connections_created ds \<and>
   registered_hubs (snd (subscribe_all tps ds)) = registered_hubs ds"
proof (induction tps arbitrary: ds)
  case Nil
  then show ?case by simp
next
  case (Cons tp tps)
  show ?case
  proof (cases "swap_pair CHR ''/'' tp")
    case (Inl e)
    then show ?thesis by simp
  next
    case (Inr tp')
    show ?thesis
    proof (cases "self_websocket_hub ds")
      case None
      with Inr show ?thesis by (simp add: hub_invoke_def)
    next
      case (Some h)
      with Inr Cons.IH show ?thesis by (simp add: hub_invoke_def)
    qed
  qed
qed

lemma connection_start_session:
  "self_websocket_connection (snd (connection_start c ds)) = self_websocket_connection ds \<and>
   self_websocket_hub (snd (connection_start c ds)) = self_websocket_hub ds \<and>
   connections_created (snd (connection_start c ds)) = connections_created ds \<and>
   registered_hubs (snd (connection_start c ds)) = registered_hubs ds"
  by (simp add: connection_start_def split: list.splits)

text \<open>
  Past the guard the call constructs a connection without a hub, and starting it raises:
  such a call never returns a session.
\<close>

lemma websocket_connection_past_guard_raises:
  assumes "self_websocket_connection ds = None \<or> self_websocket_hub ds = None"
  shows "\<exists>e. fst (websocket_connection am ds) = Inl e"
proof -
  let ?c = "connections_created ds"
  let ?ds1 = "ds\<lparr>self_websocket_connection := Some ?c, connections_created := ?c + 1,
                  registered_hubs := (registered_hubs ds)(?c := [])\<rparr>"
  obtain tps ds2 where g: "get_trading_pairs am ?ds1 = (tps, ds2)"
    by (cases "get_trading_pairs am ?ds1")
  obtain r ds3 where sb: "subscribe_all tps ds2 = (r, ds3)" by (cases "subscribe_all tps ds2")
  from get_trading_pairs_session[of am ?ds1] g have "registered_hubs ds2 ?c = []" by simp
  with subscribe_all_session[of tps ds2] sb have "registered_hubs ds3 ?c = []" by simp
  then have st: "connection_start ?c ds3 = (Inl IndexError, ds3)"
    by (simp add: connection_start_def)
  from assms g sb st show ?thesis
    by (cases r; cases "self_websocket_connection ds"; cases "self_websocket_hub ds")
       (simp_all add: websocket_connection_def Let_def)
qed

text \<open>
  C8. When a session is established, that is when the object holds a connection and a
  hub, \<open>websocket_connection\<close> returns this connection and hub and leaves the whole state
  as it is: no connection is constructed or started, no subscription is issued and the
  catalog is not read.
\<close>

theorem connect_returns_existing_session:
  assumes "self_websocket_connection ds = Some c" and "self_websocket_hub ds = Some h"
  shows "websocket_connection active_markets ds = (Inr (c, Some h), ds) \<and>
     connections_created (snd (websocket_connection active_markets ds)) = connections_created ds \<and>
     started (snd (websocket_connection active_markets ds)) = started ds \<and>
     invoked (snd (websocket_connection active_markets ds)) = invoked ds"
  using assms by (simp add: websocket_connection_def)

theorem connect_returns_existing_session_witness:
  "self_websocket_connection connected_example = Some 0 \<and>
   self_websocket_hub connected_example = Some 0 \<and>
   websocket_connection (Inl IOError) connected_example = (Inr (0, Some 0), connected_example) \<and>
   connections_created (snd (websocket_connection (Inl IOError) connected_example)) = 1 \<and>
   started (snd (websocket_connection (Inl IOError) connected_example)) = [0] \<and>
   invoked (snd (websocket_connection (Inl IOError) connected_example)) =
     [(''SubscribeToExchangeDeltas'', ''USD-BTC''), (''queryExchangeState'', ''USD-BTC'')]"
proof -
  have h1: "self_websocket_connection connected_example = Some 0"
    by (simp add: connected_example_def)
  have h2: "self_websocket_hub connected_example = Some 0"
    by (simp add: connected_example_def)
  from connect_returns_existing_session [OF h1 h2, of "Inl IOError"] h1 h2
  show ?thesis by (simp add: connected_example_def)
qed

subsection \<open>Waiting for a snapshot\<close>

lemma no_slot_times_out:
  "self_snapshot_msg ds tp = None \<Longrightarrow>
     wait_for_snapshot tp T (replicate k []) ds = (Inl TimeoutError, ds)"
proof (induction k)
  case 0
  then show ?case by simp
next
  case (Suc k)
  from Suc.prems have "(self_snapshot_msg ds)(tp := None) = self_snapshot_msg ds"
    by (simp add: fun_upd_idem_iff)
  with Suc show ?case by simp
qed

lemma wait_for_snapshot_outcome:
  "(case wait_for_snapshot tp T schedule ds of
      (Inr c, ds') \<Rightarrow>
        (\<exists>m. Some m \<in> set (polled tp schedule ds) \<and> T \<le> slot_timestamp m \<and> content m = c) \<and>
        self_snapshot_msg ds' tp = None
    | (Inl e, ds') \<Rightarrow>
        e = TimeoutError \<and> (\<forall>m. Some m \<in> set (polled tp schedule ds) \<longrightarrow> slot_timestamp m < T))"
proof (induction schedule arbitrary: ds)
  case Nil
  then show ?case by simp
next
  case (Cons stored later)
  let ?ds1 = "ds\<lparr>self_snapshot_msg := (self_snapshot_msg ds)(tp := None)\<rparr>"
  let ?next = "fold store_snapshot stored ?ds1"
  show ?case
  proof (cases "self_snapshot_msg ds tp")
    case None
    with Cons.IH[where ds="?next"] show ?thesis
      by (auto split: prod.splits sum.splits)
  next
    case (Some m)
    show ?thesis
    proof (cases "T \<le> slot_timestamp m")
      case True
      with Some show ?thesis by auto
    next
      case False
      with Some Cons.IH[where ds="?next"] show ?thesis
        by (auto split: prod.splits sum.splits)
    qed
  qed
qed

text \<open>
  C4. A call of \<open>wait_for_snapshot\<close> either returns the content of a slot that one of its
  polls saw with a timestamp \<open>\<ge>\<close> the request's, and then the pair has no slot left, so
  that a further request that nothing new is stored for times out; or it raises
  \<open>TimeoutError\<close>, and then every slot that its polls saw was older than the request.
  The deadline is the end of the schedule of polls.
\<close>

theorem wait_for_snapshot_returns_fresh_or_times_out:
  "(case wait_for_snapshot tp T schedule ds of
      (Inr c, ds') \<Rightarrow>
        (\<exists>m. Some m \<in> set (polled tp schedule ds) \<and> T \<le> slot_timestamp m \<and> content m = c) \<and>
        self_snapshot_msg ds' tp = None \<and>
        (\<forall>k T'. wait_for_snapshot tp T' (replicate k []) ds' = (Inl TimeoutError, ds'))
    | (Inl e, ds') \<Rightarrow>
        e = TimeoutError \<and> (\<forall>m. Some m \<in> set (polled tp schedule ds) \<longrightarrow> slot_timestamp m < T))"
proof (cases "wait_for_snapshot tp T schedule ds")
  case (Pair r ds')
  show ?thesis
  proof (cases r)
    case (Inl e)
    with Pair wait_for_snapshot_outcome[where tp=tp and T=T and schedule=schedule and ds=ds] show ?thesis by simp
  next
    case (Inr c)
    with Pair wait_for_snapshot_outcome[where tp=tp and T=T and schedule=schedule and ds=ds]
    have "self_snapshot_msg ds' tp = None" by simp
    then have "\<forall>k T'. wait_for_snapshot tp T' (replicate k []) ds' = (Inl TimeoutError, ds')"
      by (simp add: no_slot_times_out)
    with Inr Pair wait_for_snapshot_outcome[where tp=tp and T=T and schedule=schedule and ds=ds] show ?thesis by simp
  qed
qed

theorem wait_for_snapshot_returns_fresh_or_times_out_witness:
  "fst (wait_for_snapshot ''BTC-USD'' 40 [[], []]
     (store_snapshot (''BTC-USD'', \<lparr>slot_timestamp = 50, content = snapshot_10\<rparr>)
        (init_data_source None))) = Inr snapshot_10 \<and>
   Some \<lparr>slot_timestamp = 50, content = snapshot_10\<rparr> \<in> set (polled ''BTC-USD'' [[], []]
     (store_snapshot (''BTC-USD'', \<lparr>slot_timestamp = 50, content = snapshot_10\<rparr>)
        (init_data_source None))) \<and>
   self_snapshot_msg (snd (wait_for_snapshot ''BTC-USD'' 40 [[], []]
     (store_snapshot (''BTC-USD'', \<lparr>slot_timestamp = 50, content = snapshot_10\<rparr>)
        (init_data_source None)))) ''BTC-USD'' = None \<and>
   fst (wait_for_snapshot ''BTC-USD'' 60 [[], []]
     (store_snapshot (''BTC-USD'', \<lparr>slot_timestamp = 50, content = snapshot_10\<rparr>)
        (init_data_source None))) = Inl TimeoutError"
  using wait_for_snapshot_returns_fresh_or_times_out [where tp="''BTC-USD''" and T=40
      and schedule="[[], []]"
      and ds="store_snapshot (''BTC-USD'', \<lparr>slot_timestamp = 50, content = snapshot_10\<rparr>)
        (init_data_source None)"]
    wait_for_snapshot_returns_fresh_or_times_out [where tp="''BTC-USD''" and T=60
      and schedule="[[], []]"
      and ds="store_snapshot (''BTC-USD'', \<lparr>slot_timestamp = 50, content = snapshot_10\<rparr>)
        (init_data_source None)"]
  by (simp add: store_snapshot_def init_data_source_def)

text \<open>
  C10. A poll that finds a slot older than the request removes it all the same and goes
  on with the pair's slot empty; when nothing else is stored for the pair before the
  deadline, the request times out although a snapshot was present, and the stale slot
  is gone.
\<close>

theorem stale_slot_discarded:
  assumes "self_snapshot_msg ds tp = Some m" and "slot_timestamp m < T"
  shows "wait_for_snapshot tp T (stored # later) ds =
       wait_for_snapshot tp T later
         (fold store_snapshot stored (ds\<lparr>self_snapshot_msg := (self_snapshot_msg ds)(tp := None)\<rparr>)) \<and>
     wait_for_snapshot tp T (replicate (Suc k) []) ds =
       (Inl TimeoutError, ds\<lparr>self_snapshot_msg := (self_snapshot_msg ds)(tp := None)\<rparr>)"
proof -
  let ?ds1 = "ds\<lparr>self_snapshot_msg := (self_snapshot_msg ds)(tp := None)\<rparr>"
  have "self_snapshot_msg ?ds1 tp = None" by simp
  then have "wait_for_snapshot tp T (replicate k []) ?ds1 = (Inl TimeoutError, ?ds1)"
    by (rule no_slot_times_out)
  with assms show ?thesis by simp
qed

theorem stale_slot_discarded_witness:
  "self_snapshot_msg
     (store_snapshot (''BTC-USD'', \<lparr>slot_timestamp = 50, content = snapshot_10\<rparr>)
        (init_data_source None)) ''BTC-USD'' = Some \<lparr>slot_timestamp = 50, content = snapshot_10\<rparr> \<and>
   slot_timestamp \<lparr>slot_timestamp = 50, content = snapshot_10\<rparr> < 60 \<and>
   fst (wait_for_snapshot ''BTC-USD'' 60 (replicate (Suc 9) [])
     (store_snapshot (''BTC-USD'', \<lparr>slot_timestamp = 50, content = snapshot_10\<rparr>)
        (init_data_source None))) = Inl TimeoutError \<and>
   self_snapshot_msg (snd (wait_for_snapshot ''BTC-USD'' 60 (replicate (Suc 9) [])
     (store_snapshot (''BTC-USD'', \<lparr>slot_timestamp = 50, content = snapshot_10\<rparr>)
        (init_data_source None)))) ''BTC-USD'' = None"
proof -
  let ?ds = "store_snapshot (''BTC-USD'', \<lparr>slot_timestamp = 50, content = snapshot_10\<rparr>)
        (init_data_source None)"
  have h1: "self_snapshot_msg ?ds ''BTC-USD'' = Some \<lparr>slot_timestamp = 50, content = snapshot_10\<rparr>"
    by (simp add: store_snapshot_def init_data_source_def)
  have h2: "slot_timestamp \<lparr>slot_timestamp = 50, content = snapshot_10\<rparr> < 60" by simp
  from stale_slot_discarded [OF h1 h2, of "[]" "[]" 9] h1 h2 show ?thesis by simp
qed

section \<open>Properties of the tracking-set refresh\<close>

lemma start_all_buffers:
  "saved_message_queues (snd (start_all av tps t)) = saved_message_queues t \<and>
   past_diffs_windows (snd (start_all av tps t)) = past_diffs_windows t"
proof (induction tps arbitrary: t)
  case Nil
  then show ?case by simp
next
  case (Cons tp tps)
  show ?case
  proof (cases "start_tracking av tp t")
    case (Inl e)
    then show ?thesis by simp
  next
    case (Inr t')
    then have "saved_message_queues t' = saved_message_queues t \<and>
        past_diffs_windows t' = past_diffs_windows t"
      by (auto simp: start_tracking_def split: option.splits)
    with Inr Cons.IH[of t'] show ?thesis by simp
  qed
qed

lemma stop_tracking_buffers:
  "saved_message_queues (snd (stop_tracking tp t)) = saved_message_queues t \<and>
   past_diffs_windows (snd (stop_tracking tp t)) = past_diffs_windows t"
  by (simp add: stop_tracking_def Let_def split: option.splits sum.splits)

lemma stop_all_buffers:
  "saved_message_queues (snd (stop_all tps t)) = saved_message_queues t \<and>
   past_diffs_windows (snd (stop_all tps t)) = past_diffs_windows t"
proof (induction tps arbitrary: t)
  case Nil
  then show ?case by simp
next
  case (Cons tp tps)
  obtain r t' where s: "stop_tracking tp t = (r, t')" by (cases "stop_tracking tp t")
  with stop_tracking_buffers[of tp t]
  have b: "saved_message_queues t' = saved_message_queues t \<and>
      past_diffs_windows t' = past_diffs_windows t" by simp
  show ?case
  proof (cases r)
    case (Inl e)
    with s b show ?thesis by simp
  next
    case (Inr u)
    with s b Cons.IH[of t'] show ?thesis by simp
  qed
qed

text \<open>No refresh changes the saved deques or the windows of past diffs, of any pair.\<close>

lemma refresh_keeps_buffers:
  "saved_message_queues (snd (refresh_tracking_tasks av t)) = saved_message_queues t \<and>
   past_diffs_windows (snd (refresh_tracking_tasks av t)) = past_diffs_windows t"
proof -
  obtain r t1 where s: "start_all av (new_trading_pair av t) t = (r, t1)"
    by (cases "start_all av (new_trading_pair av t) t")
  with start_all_buffers[of av "new_trading_pair av t" t]
  have b: "saved_message_queues t1 = saved_message_queues t \<and>
      past_diffs_windows t1 = past_diffs_windows t" by simp
  show ?thesis
  proof (cases r)
    case (Inl e)
    with s b show ?thesis by (simp add: refresh_tracking_tasks_def)
  next
    case (Inr u)
    with s b stop_all_buffers[of "deleted_trading_pair av t" t1] show ?thesis
      by (simp add: refresh_tracking_tasks_def)
  qed
qed

text \<open>What stopping one pair does release, and that it touches no other pair.\<close>

lemma stop_tracking_releases:
  assumes "stop_tracking tp t = (Inr u, t')"
  shows "map_of (tracking_tasks t') k = (if k = tp then None else map_of (tracking_tasks t) k) \<and>
     map_of (order_books t') k = (if k = tp then None else map_of (order_books t) k) \<and>
     map_of (active_order_trackers t') k =
       (if k = tp then None else map_of (active_order_trackers t) k) \<and>
     map_of (tracking_message_queues t') k =
       (if k = tp then None else map_of (tracking_message_queues t) k) \<and>
     (\<exists>tk. map_of (tracking_tasks t) tp = Some tk \<and> cancelled t' = cancelled t @ [task_id tk])"
  using assms
  by (auto simp: stop_tracking_def py_del_def Let_def delete_conv'
      split: option.splits sum.splits)

lemma tracked_example_eq:
  "tracked_example =
     \<lparr>tracking_tasks = [(''BTC-USD'', \<lparr>task_id = 0, is_done = False\<rparr>),
                        (''ETH-USD'', \<lparr>task_id = 1, is_done = False\<rparr>)],
      order_books = [(''BTC-USD'', empty_book), (''ETH-USD'', empty_book)],
      active_order_trackers = [(''BTC-USD'', 0), (''ETH-USD'', 0)],
      tracking_message_queues = [(''BTC-USD'', []), (''ETH-USD'', [])],
      saved_message_queues = [(''BTC-USD'', []), (''ETH-USD'', [])],
      past_diffs_windows = [(''BTC-USD'', []), (''ETH-USD'', [])],
      tasks_created = 2, cancelled = [],
      tracker_log = [StartedTracking ''BTC-USD'', StartedTracking ''ETH-USD'']\<rparr>"
  by (simp add: tracked_example_def refresh_tracking_tasks_def new_trading_pair_def
      deleted_trading_pair_def tracking_trading_pair_def init_tracker_def start_tracking_def
      track_single_book_begin_def entry_example_def Let_def)

text \<open>
  C5, at its failing input. \<open>BTC-USD\<close> and \<open>ETH-USD\<close> are tracked and \<open>BTC-USD\<close> is no
  longer available. The refresh cancels the task of \<open>BTC-USD\<close> and removes the pair from
  the tasks, the order books, the active order trackers and the inbound queues, and
  \<open>ETH-USD\<close> keeps its entries; but the pair's saved deque (the replay buffer) and its
  window of past diffs stay in \<open>_saved_message_queues\<close> and \<open>_past_diffs_windows\<close>.
\<close>

theorem removed_pair_keeps_replay_buffer:
  "fst (refresh_tracking_tasks [(''ETH-USD'', entry_example)] tracked_example) = Inr () \<and>
   cancelled (snd (refresh_tracking_tasks [(''ETH-USD'', entry_example)] tracked_example)) = [0] \<and>
   tracking_tasks (snd (refresh_tracking_tasks [(''ETH-USD'', entry_example)] tracked_example)) =
     [(''ETH-USD'', \<lparr>task_id = 1, is_done = False\<rparr>)] \<and>
   order_books (snd (refresh_tracking_tasks [(''ETH-USD'', entry_example)] tracked_example)) =
     [(''ETH-USD'', empty_book)] \<and>
   active_order_trackers (snd (refresh_tracking_tasks [(''ETH-USD'', entry_example)] tracked_example)) =
     [(''ETH-USD'', 0)] \<and>
   tracking_message_queues (snd (refresh_tracking_tasks [(''ETH-USD'', entry_example)] tracked_example)) =
     [(''ETH-USD'', [])] \<and>
   saved_message_queues (snd (refresh_tracking_tasks [(''ETH-USD'', entry_example)] tracked_example)) =
     [(''BTC-USD'', []), (''ETH-USD'', [])] \<and>
   past_diffs_windows (snd (refresh_tracking_tasks [(''ETH-USD'', entry_example)] tracked_example)) =
     [(''BTC-USD'', []), (''ETH-USD'', [])]"
proof -
  have "refresh_tracking_tasks [(''ETH-USD'', entry_example)] tracked_example =
     (Inr (),
      tracked_example\<lparr>cancelled := [0],
        tracking_tasks := [(''ETH-USD'', \<lparr>task_id = 1, is_done = False\<rparr>)],
        order_books := [(''ETH-USD'', empty_book)],
        active_order_trackers := [(''ETH-USD'', 0)],
        tracking_message_queues := [(''ETH-USD'', [])],
        tracker_log := tracker_log tracked_example @ [StoppedTracking ''BTC-USD'']\<rparr>)"
    by (simp add: tracked_example_eq refresh_tracking_tasks_def new_trading_pair_def
        deleted_trading_pair_def tracking_trading_pair_def stop_tracking_def py_del_def
        Let_def AList.delete_eq)
  then show ?thesis by (simp add: tracked_example_eq)
qed

end
